theory Spec2Isabelle
  imports Complex_Main "HOL-Library.Sublist"
begin

section \<open>Python strings\<close>

text \<open>
  Python strings are modelled as lists of code points below 256 (\<^typ>\<open>string\<close>).
  On these code points \<open>str.isspace\<close>, the regular expression class \<open>\s\<close> and
  \<open>str.lower\<close> are the functions below.
\<close>

definition nl :: char where
  "nl = CHR 0x0A"

definition is_space :: "char \<Rightarrow> bool" where
  "is_space c =
     (let n = (of_char c :: nat)
      in (9 \<le> n \<and> n \<le> 13) \<or> (28 \<le> n \<and> n \<le> 32) \<or> n = 133 \<or> n = 160)"

definition lower_char :: "char \<Rightarrow> char" where
  "lower_char c =
     (let n = (of_char c :: nat)
      in if (65 \<le> n \<and> n \<le> 90) \<or> (192 \<le> n \<and> n \<le> 222 \<and> n \<noteq> 215)
         then char_of (n + 32) else c)"

definition lower :: "string \<Rightarrow> string" where
  "lower s = map lower_char s"

text \<open>\<open>s.strip()\<close>: leading and trailing white space removed.\<close>

definition lstrip :: "string \<Rightarrow> string" where
  "lstrip s = dropWhile is_space s"

definition rstrip :: "string \<Rightarrow> string" where
  "rstrip s = rev (dropWhile is_space (rev s))"

definition strip :: "string \<Rightarrow> string" where
  "strip s = rstrip (lstrip s)"


section \<open>optimized\_app.py: the retrying call wrapper and the analysis pipeline\<close>

subsection \<open>Exceptions, remote objects and the process state\<close>

text \<open>
  The handlers of the source distinguish three classes of exception:
  \<open>GoogleAPIError\<close>, \<open>TimeoutError\<close> and every other \<open>Exception\<close>. An exception
  is its class and the text \<open>str(e)\<close>.
\<close>

datatype exn_class = GoogleAPIError | TimeoutError | OtherException

datatype exn = Exn (exn_class: exn_class) (exn_str: string)

datatype 'a outcome = Return 'a | Raise exn

text \<open>The file handle of the remote service: \<open>name\<close>, \<open>state.name\<close>, \<open>mime_type\<close>, \<open>uri\<close>.\<close>

record remote_file =
  file_name :: string
  state_name :: string
  mime_type :: string
  uri :: string

record response =
  response_text :: string

text \<open>
  A remote invocation that was made. The generation request is recorded by the user query
  its prompt template embeds and by the media reference it attaches.
\<close>

datatype call =
  UploadFile string
| GetFile string
| GenerateContent string string string

text \<open>
  The remote service: what the \<open>n\<close>-th remote invocation of the process answers, and
  after how many milliseconds. \<open>None\<close> is Python's \<open>None\<close>.
\<close>

record remote =
  upload_reply :: "nat \<Rightarrow> nat \<times> remote_file option outcome"
  get_reply :: "nat \<Rightarrow> nat \<times> remote_file option outcome"
  generate_reply :: "nat \<Rightarrow> nat \<times> response option outcome"

text \<open>
  The state of the process: the entries of \<open>st.session_state\<close> that the pipeline reads
  or writes, the wall clock in milliseconds, the durations of the \<open>time.sleep\<close> calls made
  and the remote invocations made. Progress widgets, log lines and the performance
  metrics of \<open>measure_performance\<close> do not influence control flow and are left out.
\<close>

record world =
  cache_id :: "string option"
  analysis_result :: "string option"
  last_query :: "string option"
  cache_hits :: nat
  current_step :: "string option"
  progress_detail :: string
  processing :: bool
  analysis_completed :: bool
  temp_video_path :: string
  now :: nat
  slept :: "nat list"
  calls :: "call list"

definition seconds :: "nat \<Rightarrow> nat" where
  "seconds n = 1000 * n"

definition sleep :: "nat \<Rightarrow> world \<Rightarrow> world" where
  "sleep ms w = w\<lparr>now := now w + ms, slept := slept w @ [ms]\<rparr>"

definition MAX_VIDEO_PROCESSING_TIME :: nat where
  "MAX_VIDEO_PROCESSING_TIME = 180"

definition API_MAX_RETRIES :: nat where
  "API_MAX_RETRIES = 3"

definition API_RETRY_DELAY :: nat where
  "API_RETRY_DELAY = 2"

subsection \<open>The remote calls\<close>

definition upload_file :: "remote \<Rightarrow> string \<Rightarrow> world \<Rightarrow> remote_file option outcome \<times> world" where
  "upload_file R path w =
     (case upload_reply R (length (calls w)) of
        (latency, out) \<Rightarrow>
          (out, w\<lparr>now := now w + latency, calls := calls w @ [UploadFile path]\<rparr>))"

definition get_file :: "remote \<Rightarrow> string \<Rightarrow> world \<Rightarrow> remote_file option outcome \<times> world" where
  "get_file R name w =
     (case get_reply R (length (calls w)) of
        (latency, out) \<Rightarrow>
          (out, w\<lparr>now := now w + latency, calls := calls w @ [GetFile name]\<rparr>))"

definition generate_content ::
  "remote \<Rightarrow> string \<Rightarrow> remote_file \<Rightarrow> world \<Rightarrow> response option outcome \<times> world" where
  "generate_content R user_query pv w =
     (case generate_reply R (length (calls w)) of
        (latency, out) \<Rightarrow>
          (out, w\<lparr>now := now w + latency,
                 calls := calls w @ [GenerateContent user_query (mime_type pv) (uri pv)]\<rparr>))"

subsection \<open>safe\_api\_call\<close>

text \<open>
  \<open>"quota" in str(e).lower() or "rate" in str(e).lower()\<close>, for a \<open>GoogleAPIError\<close>.
\<close>

definition is_rate_limit :: "exn \<Rightarrow> bool" where
  "is_rate_limit e =
     (exn_class e = GoogleAPIError \<and>
      (sublist ''quota'' (lower (exn_str e)) \<or> sublist ''rate'' (lower (exn_str e))))"

text \<open>
  What the wrapper does between a rate-limited attempt and the next one: it notes the
  retry in \<open>progress_detail\<close> and sleeps \<open>retry_delay * (attempt + 1)\<close> seconds.
\<close>

definition backoff :: "nat \<Rightarrow> world \<Rightarrow> world" where
  "backoff attempt w =
     sleep (seconds (API_RETRY_DELAY * (attempt + 1)))
       (w\<lparr>progress_detail := ''API rate limit hit, retrying in 2s...''\<rparr>)"

text \<open>
  The body of \<open>for attempt in range(max_retries)\<close>, with the number of attempts that
  are left. A loop that ends without returning makes the function return \<open>None\<close>.
\<close>

fun safe_api_call_loop ::
  "nat \<Rightarrow> nat \<Rightarrow> (world \<Rightarrow> 'a option outcome \<times> world) \<Rightarrow> world \<Rightarrow> 'a option outcome \<times> world"
where
  "safe_api_call_loop 0 attempt func w = (Return None, w)"
| "safe_api_call_loop (Suc left) attempt func w =
     (case func w of
        (Return v, w') \<Rightarrow> (Return v, w')
      | (Raise e, w') \<Rightarrow>
          if is_rate_limit e \<and> attempt < API_MAX_RETRIES - 1
          then safe_api_call_loop left (attempt + 1) func (backoff attempt w')
          else (Raise e, w'))"

definition safe_api_call ::
  "(world \<Rightarrow> 'a option outcome \<times> world) \<Rightarrow> world \<Rightarrow> 'a option outcome \<times> world" where
  "safe_api_call func w = safe_api_call_loop API_MAX_RETRIES 0 func w"


subsection \<open>The poll loop of analyze\_wrestling\_video\<close>

text \<open>
  The clock never runs backwards: a remote call takes its latency, a sleep its duration.
  This is what makes the poll loop terminate.
\<close>

lemma now_backoff: "now w \<le> now (backoff attempt w)"
  by (simp add: backoff_def sleep_def)

lemma now_safe_api_call_loop:
  assumes mono: "\<And>w r w'. func w = (r, w') \<Longrightarrow> now w \<le> now w'"
  shows "safe_api_call_loop left attempt func w = (r, w') \<Longrightarrow> now w \<le> now w'"
proof (induction left arbitrary: attempt w)
  case 0
  then show ?case by simp
next
  case (Suc left)
  obtain r1 w1 where f: "func w = (r1, w1)" by (cases "func w")
  have le1: "now w \<le> now w1" using mono [OF f] .
  show ?case
  proof (cases r1)
    case (Return v)
    with Suc.prems f le1 show ?thesis by simp
  next
    case (Raise e)
    show ?thesis
    proof (cases "is_rate_limit e \<and> attempt < API_MAX_RETRIES - 1")
      case True
      with Suc.prems f Raise
      have "safe_api_call_loop left (attempt + 1) func (backoff attempt w1) = (r, w')"
        by simp
      then have "now (backoff attempt w1) \<le> now w'" by (rule Suc.IH)
      with le1 now_backoff [of w1 attempt] show ?thesis by linarith
    next
      case False
      with Suc.prems f Raise le1 show ?thesis by auto
    qed
  qed
qed

lemma now_get_file: "get_file R name w = (r, w') \<Longrightarrow> now w \<le> now w'"
  by (auto simp: get_file_def split: prod.splits)

lemma now_safe_get_file:
  "safe_api_call (get_file R name) w = (r, w') \<Longrightarrow> now w \<le> now w'"
  unfolding safe_api_call_def
  by (rule now_safe_api_call_loop [where func = "get_file R name"]) (rule now_get_file)

text \<open>
  \<open>while processed_video.state.name == "PROCESSING"\<close>: the elapsed time is checked
  against the ceiling, then the loop sleeps one second and polls the handle again through
  the wrapper.
\<close>

function processing_loop ::
  "remote \<Rightarrow> nat \<Rightarrow> remote_file \<Rightarrow> world \<Rightarrow> remote_file outcome \<times> world" where
  "processing_loop R processing_start processed_video w =
     (if state_name processed_video = ''PROCESSING'' then
        (if now w - processing_start > seconds MAX_VIDEO_PROCESSING_TIME
         then (Raise (Exn TimeoutError ''Video processing timed out after 180 seconds''), w)
         else
           (case safe_api_call (get_file R (file_name processed_video)) (sleep (seconds 1) w) of
              (Raise e, w') \<Rightarrow> (Raise e, w')
            | (Return None, w') \<Rightarrow>
                (Raise (Exn OtherException ''Failed to retrieve processed video file''), w')
            | (Return (Some processed_video'), w') \<Rightarrow>
                processing_loop R processing_start processed_video' w'))
      else (Return processed_video, w))"
  by pat_completeness auto
termination
proof (relation "measure (\<lambda>(R, processing_start, processed_video, w).
          (processing_start + seconds MAX_VIDEO_PROCESSING_TIME + 1) - now w)")
  show "wf (measure (\<lambda>(R, processing_start, processed_video, w).
          (processing_start + seconds MAX_VIDEO_PROCESSING_TIME + 1) - now w))"
    by simp
next
  fix R :: remote and processing_start :: nat and processed_video :: remote_file
    and w :: world and x w' r v
  assume le: "\<not> seconds MAX_VIDEO_PROCESSING_TIME < now w - processing_start"
    and call: "(x, w') = safe_api_call (get_file R (file_name processed_video)) (sleep (seconds 1) w)"
  from call have "now (sleep (seconds 1) w) \<le> now w'"
    by (intro now_safe_get_file [of R "file_name processed_video" _ x]) simp
  then have "now w < now w'" by (simp add: sleep_def seconds_def)
  with le show "((R, processing_start, v, w'), (R, processing_start, processed_video, w))
      \<in> measure (\<lambda>(R, processing_start, processed_video, w).
          (processing_start + seconds MAX_VIDEO_PROCESSING_TIME + 1) - now w)"
    by simp
qed

declare processing_loop.simps [simp del]

subsection \<open>analyze\_wrestling\_video\<close>

definition cache_key :: "string \<Rightarrow> string \<Rightarrow> string" where
  "cache_key video_path user_query = video_path @ ''_'' @ user_query"

text \<open>
  The generation call on the processed handle, through the wrapper, up to
  \<open>return response.text\<close>.
\<close>

definition generation_stage ::
  "remote \<Rightarrow> string \<Rightarrow> remote_file \<Rightarrow> world \<Rightarrow> string outcome \<times> world" where
  "generation_stage R user_query processed_video w =
     (case safe_api_call (generate_content R user_query processed_video) w of
        (Raise e, w') \<Rightarrow> (Raise e, w')
      | (Return None, w') \<Rightarrow>
          (Raise (Exn OtherException ''Gemini API content generation failed''), w')
      | (Return (Some response), w') \<Rightarrow>
          (Return (response_text response),
           sleep 500 (w'\<lparr>current_step := Some ''completed''\<rparr>)))"

text \<open>
  The statements under \<open>try\<close>: the upload through the wrapper, the poll loop, the check
  that the handle is in the state \<open>SUCCEEDED\<close>, the generation.
\<close>

definition analyze_body :: "remote \<Rightarrow> string \<Rightarrow> string \<Rightarrow> world \<Rightarrow> string outcome \<times> world" where
  "analyze_body R video_path user_query w =
     (case safe_api_call (upload_file R video_path) (w\<lparr>current_step := Some ''uploading''\<rparr>) of
        (Raise e, w1) \<Rightarrow> (Raise e, w1)
      | (Return None, w1) \<Rightarrow> (Raise (Exn OtherException ''Video upload failed''), w1)
      | (Return (Some processed_video), w1) \<Rightarrow>
          (case processing_loop R (now w1) processed_video
                  (w1\<lparr>current_step := Some ''processing''\<rparr>) of
             (Raise e, w2) \<Rightarrow> (Raise e, w2)
           | (Return pv, w2) \<Rightarrow>
               if state_name pv \<noteq> ''SUCCEEDED''
               then (Raise (Exn OtherException
                       (''Video processing failed with state: '' @ state_name pv)),
                     w2\<lparr>current_step := Some ''analyzing''\<rparr>)
               else generation_stage R user_query pv
                      (w2\<lparr>current_step := Some ''analyzing''\<rparr>)))"

text \<open>
  The three handlers of the \<open>try\<close>: a timeout is raised again as a \<open>TimeoutError\<close>, an
  API error and any other exception as a plain \<open>Exception\<close>.
\<close>

definition analyze_handlers :: "exn \<Rightarrow> exn" where
  "analyze_handlers e =
     (case exn_class e of
        TimeoutError \<Rightarrow> Exn TimeoutError (''Analysis timeout: '' @ exn_str e)
      | GoogleAPIError \<Rightarrow>
          Exn OtherException
            (if sublist ''quota'' (lower (exn_str e))
             then ''API rate limit exceeded. Please try again in a few minutes.''
             else ''Google API error: '' @ exn_str e)
      | OtherException \<Rightarrow> Exn OtherException (''Analysis error: '' @ exn_str e))"

text \<open>
  The cache check comes first: the key is the path and the query joined by an underscore,
  and the cached result is used when the key is the stored one and a result is stored
  that is not empty (the truth value of \<open>st.session_state.analysis_result\<close>).
\<close>

definition cached_result :: "world \<Rightarrow> string \<Rightarrow> string option" where
  "cached_result w key =
     (if cache_id w = Some key
      then (case analysis_result w of
              Some t \<Rightarrow> (if t \<noteq> [] then Some t else None)
            | None \<Rightarrow> None)
      else None)"

definition with_handlers :: "string outcome \<times> world \<Rightarrow> string outcome \<times> world" where
  "with_handlers rw =
     (case rw of
        (Return t, w') \<Rightarrow> (Return t, w')
      | (Raise e, w') \<Rightarrow> (Raise (analyze_handlers e), w'\<lparr>current_step := Some ''error''\<rparr>))"

definition analyze_wrestling_video ::
  "remote \<Rightarrow> string \<Rightarrow> string \<Rightarrow> world \<Rightarrow> string outcome \<times> world" where
  "analyze_wrestling_video R video_path user_query w =
     (case cached_result w (cache_key video_path user_query) of
        Some t \<Rightarrow> (Return t, sleep 500 (w\<lparr>cache_hits := cache_hits w + 1\<rparr>))
      | None \<Rightarrow>
          with_handlers
            (analyze_body R video_path user_query
               (w\<lparr>cache_id := Some (cache_key video_path user_query),
                  last_query := Some user_query\<rparr>)))"

text \<open>
  The handler of the "Analyze Technique" button in \<open>main\<close>, for an uploaded video: an
  empty query is only warned about; otherwise a changed query clears the previous result,
  the analysis runs on \<open>temp_video_path\<close>, and its result is stored.
\<close>

definition analyze_button :: "remote \<Rightarrow> string \<Rightarrow> world \<Rightarrow> world" where
  "analyze_button R user_query w =
     (if user_query = [] then w
      else
        (let w1 = w\<lparr>processing := True\<rparr>;
             w2 = (if last_query w1 \<noteq> Some user_query
                   then w1\<lparr>analysis_result := None\<rparr> else w1)
         in case analyze_wrestling_video R (temp_video_path w2) user_query w2 of
              (Return t, w3) \<Rightarrow>
                w3\<lparr>analysis_result := Some t, analysis_completed := True, processing := False\<rparr>
            | (Raise e, w3) \<Rightarrow> w3\<lparr>processing := False\<rparr>))"



section \<open>gradiocoach.py: the extraction stage and the report\<close>

subsection \<open>Parsed JSON\<close>

text \<open>
  What \<open>json.loads\<close> returns: \<open>None\<close>, a \<open>bool\<close>, an \<open>int\<close>, a \<open>float\<close> (the
  real it denotes), a \<open>str\<close>, a \<open>list\<close> or a \<open>dict\<close>. \<open>json.loads\<close> itself is a
  parameter \<open>json_loads\<close> of the functions below: \<open>None\<close> is a \<open>JSONDecodeError\<close>.
\<close>

datatype json =
  JNull
| JBool bool
| JInt int
| JFloat real
| JStr string
| JList "json list"
| JDict "(string \<times> json) list"

text \<open>The truth value of a parsed value (\<open>if not data\<close>).\<close>

fun truthy :: "json \<Rightarrow> bool" where
  "truthy JNull = False"
| "truthy (JBool b) = b"
| "truthy (JInt n) = (n \<noteq> 0)"
| "truthy (JFloat x) = (x \<noteq> 0)"
| "truthy (JStr s) = (s \<noteq> [])"
| "truthy (JList xs) = (xs \<noteq> [])"
| "truthy (JDict d) = (d \<noteq> [])"

text \<open>\<open>d.get(key)\<close>: \<open>None\<close> for a missing key.\<close>

definition dict_get :: "(string \<times> json) list \<Rightarrow> string \<Rightarrow> json" where
  "dict_get d key = (case map_of d key of Some v \<Rightarrow> v | None \<Rightarrow> JNull)"

text \<open>\<open>isinstance(v, int)\<close> holds for an \<open>int\<close> and for a \<open>bool\<close>, which compares as 0 or 1.\<close>

fun as_int :: "json \<Rightarrow> int option" where
  "as_int (JInt n) = Some n"
| "as_int (JBool b) = Some (if b then 1 else 0)"
| "as_int v = None"

fun as_list :: "json \<Rightarrow> json list option" where
  "as_list (JList xs) = Some xs"
| "as_list v = None"

subsection \<open>The two regular expressions of run\_stage2\_extraction\<close>

text \<open>
  \<open>re.sub(r'^```json\s*|\s*```$', '', text, flags=re.MULTILINE | re.DOTALL)\<close>. The
  search goes through the text from left to right. At a position at the beginning of a
  line (\<open>bol\<close>) where the text goes on with \<open>```json\<close>, this and the white space after
  it are removed. Otherwise, where the white space at the position is followed by
  \<open>```\<close> and the end of a line or of the text, both are removed. Otherwise the
  character is kept. The search goes on behind what was removed.
\<close>

definition fence_open :: "bool \<Rightarrow> string \<Rightarrow> bool" where
  "fence_open bol s = (bol \<and> prefix ''```json'' s)"

definition fence_close :: "string \<Rightarrow> bool" where
  "fence_close s =
     (let r = dropWhile is_space s
      in prefix ''```'' r \<and> (drop 3 r = [] \<or> hd (drop 3 r) = nl))"

function fence_sub :: "bool \<Rightarrow> string \<Rightarrow> string" where
  "fence_sub bol [] = []"
| "fence_sub bol (c # cs) =
     (if fence_open bol (c # cs) then
        (let ws = takeWhile is_space (drop 7 (c # cs))
         in fence_sub (ws \<noteq> [] \<and> last ws = nl) (dropWhile is_space (drop 7 (c # cs))))
      else if fence_close (c # cs) then
        fence_sub False (drop 3 (dropWhile is_space (c # cs)))
      else c # fence_sub (c = nl) cs)"
  by pat_completeness auto
termination
proof (relation "measure (\<lambda>(bol, s). length s)")
  show "wf (measure (\<lambda>(bol, s). length s))" by simp
next
  fix bol c cs ws
  assume "fence_open bol (c # cs)"
  then have "7 \<le> length (c # cs)"
    by (auto simp: fence_open_def dest: prefix_length_le)
  moreover have "length (dropWhile is_space (drop 7 (c # cs))) \<le> length (drop 7 (c # cs))"
    by (rule length_dropWhile_le)
  ultimately show "((ws \<noteq> [] \<and> last ws = nl, dropWhile is_space (drop 7 (c # cs))), (bol, c # cs))
      \<in> measure (\<lambda>(bol, s). length s)"
    by simp
next
  fix bol c cs
  assume "fence_close (c # cs)"
  then have "3 \<le> length (dropWhile is_space (c # cs))"
    by (auto simp: fence_close_def Let_def dest: prefix_length_le)
  moreover have "length (dropWhile is_space (c # cs)) \<le> length (c # cs)"
    by (rule length_dropWhile_le)
  ultimately show "((False, drop 3 (dropWhile is_space (c # cs))), (bol, c # cs))
      \<in> measure (\<lambda>(bol, s). length s)"
    by simp
next
  fix bol c cs
  show "((c = nl, cs), (bol, c # cs)) \<in> measure (\<lambda>(bol, s). length s)" by simp
qed

declare fence_sub.simps(2) [simp del]

text \<open>\<open>cleaned_json_text\<close>: the substitution, then \<open>strip()\<close>.\<close>

definition clean_json_text :: "string \<Rightarrow> string" where
  "clean_json_text raw = strip (fence_sub True raw)"

text \<open>
  \<open>re.search(r'\{.*\}', text, re.DOTALL)\<close>: from the first opening brace to the last
  closing brace behind it, if there is one.
\<close>

definition brace_search :: "string \<Rightarrow> string option" where
  "brace_search s =
     (let t = dropWhile (\<lambda>c. c \<noteq> CHR ''{'') s;
          u = rev (dropWhile (\<lambda>c. c \<noteq> CHR ''}'') (rev t))
      in if u = [] then None else Some u)"

subsection \<open>run\_stage2\_extraction\<close>

text \<open>The warnings and errors the stage logs (information and debug lines are left out).\<close>

datatype log =
  Error_no_client
| Error_empty_report
| Error_empty_response
| Error_unexpected
| Error_json_decode
| Warning_fallback_attempt
| Warning_fallback_parsed
| Error_fallback_failed
| Warning_missing_keys "string list"
| Warning_invalid_chart string
| Warning_chart_not_dict string

definition required_top_keys :: "string list" where
  "required_top_keys =
     [''video_summary'', ''skills'', ''power'', ''mocap'', ''mobility'', ''predictions'', ''roadmap'']"

definition chart_keys :: "string list" where
  "chart_keys = [''skills'', ''power'', ''mocap'', ''mobility'']"

text \<open>
  The condition whose negation is logged as "Invalid structure or mismatched lengths":
  \<open>num_axes\<close> is an int, \<open>values\<close> and \<open>labels\<close> are lists of that length.
\<close>

definition chart_shape_ok :: "(string \<times> json) list \<Rightarrow> bool" where
  "chart_shape_ok chart =
     (case (as_int (dict_get chart ''num_axes''),
            as_list (dict_get chart ''values''),
            as_list (dict_get chart ''labels'')) of
        (Some expected_axes, Some values, Some labels) \<Rightarrow>
          int (length values) = expected_axes \<and> int (length labels) = expected_axes
      | _ \<Rightarrow> False)"

definition check_chart :: "(string \<times> json) list \<Rightarrow> string \<Rightarrow> log list" where
  "check_chart structured_data chart_key =
     (case dict_get structured_data chart_key of
        JDict chart \<Rightarrow> (if chart_shape_ok chart then [] else [Warning_invalid_chart chart_key])
      | _ \<Rightarrow> [Warning_chart_not_dict chart_key])"

definition missing_keys_log :: "string list \<Rightarrow> log list" where
  "missing_keys_log missing_keys =
     (if missing_keys \<noteq> [] then [Warning_missing_keys missing_keys] else [])"

text \<open>
  The "Basic Validation" of the parsed value. Only a dict has \<open>get\<close>; \<open>key not in data\<close>
  is defined for a dict, a list and a string, and raises for the other values. Whatever
  is raised here is caught by \<open>except Exception\<close>, which returns \<open>None\<close>.
\<close>

fun stage2_validate :: "json \<Rightarrow> json option \<times> log list" where
  "stage2_validate (JDict d) =
     (Some (JDict d),
      missing_keys_log (filter (\<lambda>key. map_of d key = None) required_top_keys)
      @ concat (map (check_chart d) chart_keys))"
| "stage2_validate (JList xs) =
     (None,
      missing_keys_log (filter (\<lambda>key. JStr key \<notin> set xs) required_top_keys)
      @ [Error_unexpected])"
| "stage2_validate (JStr s) =
     (None,
      missing_keys_log (filter (\<lambda>key. \<not> sublist key s) required_top_keys)
      @ [Error_unexpected])"
| "stage2_validate v = (None, [Error_unexpected])"

text \<open>
  The stage. \<open>client\<close> says whether \<open>gemini_client_json\<close> is there; \<open>gemini_json\<close> is
  the model call on the prompt of a report: it raises, or returns a response whose text,
  if it has one, is given.
\<close>

definition run_stage2_extraction ::
  "bool \<Rightarrow> (string \<Rightarrow> string option outcome) \<Rightarrow> (string \<Rightarrow> json option) \<Rightarrow> string
   \<Rightarrow> json option \<times> log list" where
  "run_stage2_extraction client gemini_json json_loads markdown_report =
     (if \<not> client then (None, [Error_no_client])
      else if markdown_report = [] \<or> strip markdown_report = [] then (None, [Error_empty_report])
      else
        (case gemini_json markdown_report of
           Raise e \<Rightarrow> (None, [Error_unexpected])
         | Return None \<Rightarrow> (None, [Error_empty_response])
         | Return (Some raw_json_text) \<Rightarrow>
             if raw_json_text = [] then (None, [Error_empty_response])
             else
               (let cleaned_json_text = clean_json_text raw_json_text
                in case json_loads cleaned_json_text of
                     Some structured_data \<Rightarrow> stage2_validate structured_data
                   | None \<Rightarrow>
                       (case brace_search cleaned_json_text of
                          None \<Rightarrow> (None, [Error_json_decode])
                        | Some potential_json \<Rightarrow>
                            (case json_loads potential_json of
                               Some structured_data \<Rightarrow>
                                 (Some structured_data,
                                  [Error_json_decode, Warning_fallback_attempt,
                                   Warning_fallback_parsed])
                             | None \<Rightarrow>
                                 (None,
                                  [Error_json_decode, Warning_fallback_attempt,
                                   Error_fallback_failed]))))))"

text \<open>
  The caller, \<open>run_analysis_interface\<close>, after Stage 1: a missing report is an error;
  when the extraction returns nothing (or a value that counts as false) the raw Stage 1
  report is put into the summary output; otherwise the structured data goes on to the
  report generation.
\<close>

datatype stage2_display =
  ReportMissing
| RawReportShown string
| StructuredData json

definition raw_report_text :: "string \<Rightarrow> string" where
  "raw_report_text markdown_report =
     ''**Stage 1 Raw Report (Stage 2 Failed):**'' @ [nl, nl] @ ''---'' @ [nl]
     @ markdown_report @ [nl] @ ''---''"

definition stage2_step ::
  "bool \<Rightarrow> (string \<Rightarrow> string option outcome) \<Rightarrow> (string \<Rightarrow> json option) \<Rightarrow> string
   \<Rightarrow> stage2_display" where
  "stage2_step client gemini_json json_loads markdown_report =
     (if markdown_report = [] then ReportMissing
      else
        (case fst (run_stage2_extraction client gemini_json json_loads markdown_report) of
           None \<Rightarrow> RawReportShown (raw_report_text markdown_report)
         | Some structured_analysis_data \<Rightarrow>
             if \<not> truthy structured_analysis_data
             then RawReportShown (raw_report_text markdown_report)
             else StructuredData structured_analysis_data))"



section \<open>Example inputs\<close>

text \<open>Concrete states, handles and remote services, on which the theorems are instantiated.\<close>

definition example_world :: world where
  "example_world =
     \<lparr>cache_id = None, analysis_result = None, last_query = None, cache_hits = 0,
      current_step = None, progress_detail = [], processing = False,
      analysis_completed = False, temp_video_path = ''clip.mp4'',
      now = 0, slept = [], calls = []\<rparr>"

definition example_file :: "string \<Rightarrow> remote_file" where
  "example_file st =
     \<lparr>file_name = ''files/abc'', state_name = st, mime_type = ''video/mp4'',
      uri = ''https://files/abc''\<rparr>"

definition quota_error :: exn where
  "quota_error = Exn GoogleAPIError ''429 Quota exceeded''"

definition server_error :: exn where
  "server_error = Exn GoogleAPIError ''500 internal error''"

text \<open>
  A service whose uploads fail with a server error and whose generation calls hit the
  quota twice before they answer.
\<close>

definition busy_remote :: remote where
  "busy_remote =
     \<lparr>upload_reply = (\<lambda>n. (0, Raise server_error)),
      get_reply = (\<lambda>n. (0, Return None)),
      generate_reply = (\<lambda>n. if n < 2 then (300, Raise quota_error)
                              else (300, Return (Some \<lparr>response_text = ''report''\<rparr>)))\<rparr>"


section \<open>The retrying call wrapper\<close>

lemma safe_api_call_unfold:
  "safe_api_call func w = safe_api_call_loop (Suc (Suc (Suc 0))) 0 func w"
  by (simp add: safe_api_call_def API_MAX_RETRIES_def numeral_3_eq_3)

text \<open>
  C2. A wrapped function that raises a rate-limit-classified error on attempts 1 and 2
  and returns on attempt 3: the wrapper returns the result of attempt 3, and it has slept
  twice in between, \<open>base_delay * 1\<close> and \<open>base_delay * 2\<close> seconds, that is 2 s and
  4 s with the base delay of 2. The wrapped function itself does not sleep.
\<close>

theorem safe_api_call_third_attempt:
  assumes a1: "func w = (Raise e1, w1)" and r1: "is_rate_limit e1"
    and a2: "func (backoff 0 w1) = (Raise e2, w2)" and r2: "is_rate_limit e2"
    and a3: "func (backoff 1 w2) = (Return v, w3)"
    and s1: "slept w1 = slept w"
    and s2: "slept w2 = slept (backoff 0 w1)"
    and s3: "slept w3 = slept (backoff 1 w2)"
  shows "safe_api_call func w = (Return v, w3) \<and>
         slept w3 = slept w @ [seconds (API_RETRY_DELAY * 1), seconds (API_RETRY_DELAY * 2)] \<and>
         [seconds (API_RETRY_DELAY * 1), seconds (API_RETRY_DELAY * 2)] = [seconds 2, seconds 4]"
proof -
  have "safe_api_call func w = (Return v, w3)"
    using a1 r1 a2 r2 a3 by (simp add: safe_api_call_unfold API_MAX_RETRIES_def)
  moreover have "slept w3 = slept w @ [seconds (API_RETRY_DELAY * 1), seconds (API_RETRY_DELAY * 2)]"
    using s1 s2 s3 by (simp add: backoff_def sleep_def API_RETRY_DELAY_def)
  ultimately show ?thesis by (simp add: API_RETRY_DELAY_def)
qed

theorem safe_api_call_third_attempt_witness:
  "fst (safe_api_call (generate_content busy_remote ''query'' (example_file ''SUCCEEDED'')) example_world)
     = Return (Some \<lparr>response_text = ''report''\<rparr>) \<and>
   slept (snd (safe_api_call (generate_content busy_remote ''query'' (example_file ''SUCCEEDED'')) example_world))
     = [2000, 4000]"
proof -
  let ?f = "generate_content busy_remote ''query'' (example_file ''SUCCEEDED'')"
  let ?w1 = "snd (?f example_world)"
  let ?w2 = "snd (?f (backoff 0 ?w1))"
  let ?w3 = "snd (?f (backoff 1 ?w2))"
  have a1: "?f example_world = (Raise quota_error, ?w1)"
    by (simp add: generate_content_def busy_remote_def example_world_def)
  have r: "is_rate_limit quota_error"
    unfolding quota_error_def by code_simp
  have a2: "?f (backoff 0 ?w1) = (Raise quota_error, ?w2)"
    by (simp add: generate_content_def busy_remote_def example_world_def backoff_def sleep_def)
  have a3: "?f (backoff 1 ?w2) = (Return (Some \<lparr>response_text = ''report''\<rparr>), ?w3)"
    by (simp add: generate_content_def busy_remote_def example_world_def backoff_def sleep_def)
  have s1: "slept ?w1 = slept example_world"
    by (simp add: generate_content_def busy_remote_def example_world_def)
  have s2: "slept ?w2 = slept (backoff 0 ?w1)"
    by (simp add: generate_content_def busy_remote_def example_world_def backoff_def sleep_def)
  have s3: "slept ?w3 = slept (backoff 1 ?w2)"
    by (simp add: generate_content_def busy_remote_def example_world_def backoff_def sleep_def)
  from safe_api_call_third_attempt [OF a1 r a2 r a3 s1 s2 s3]
  show ?thesis by (simp add: example_world_def seconds_def)
qed

text \<open>
  C3. A wrapped function that raises an error which is not rate-limit-classified: the
  exception propagates at once, at whatever attempt it occurs, and the wrapper as a whole
  is one invocation of the function and nothing else (no retry, no sleep).
\<close>

theorem safe_api_call_no_retry:
  assumes "func w = (Raise e, w1)" and "\<not> is_rate_limit e"
  shows "safe_api_call_loop (Suc left) attempt func w = (Raise e, w1) \<and>
         safe_api_call func w = (Raise e, w1) \<and>
         safe_api_call func w = func w"
  using assms by (simp add: safe_api_call_unfold)


theorem safe_api_call_no_retry_witness:
  "safe_api_call (upload_file busy_remote ''clip.mp4'') example_world
     = (Raise server_error, example_world\<lparr>calls := [UploadFile ''clip.mp4'']\<rparr>)"
proof -
  have a: "upload_file busy_remote ''clip.mp4'' example_world
      = (Raise server_error, example_world\<lparr>calls := [UploadFile ''clip.mp4'']\<rparr>)"
    by (simp add: upload_file_def busy_remote_def example_world_def)
  have n: "\<not> is_rate_limit server_error"
    unfolding server_error_def by code_simp
  from safe_api_call_no_retry [where func = "upload_file busy_remote ''clip.mp4''", OF a n]
  show ?thesis by simp
qed


end
